theory Spec2Isabelle
  imports Complex_Main
begin

section \<open>The payment gateway's transaction processor\<close>

text \<open>
  A shallow embedding of \<^verbatim>\<open>services/payment-gateway/src/services/PaymentProcessor.ts\<close>
  and of the transaction model it imports. An asynchronous method becomes a function that
  takes the provider (what each \<^verbatim>\<open>axios.post\<close> settles to) and returns both the
  method's outcome and the list of requests it posted. A thrown exception is the left
  summand of the outcome. The code is taken as it runs, as JavaScript with the types
  erased. The winston logger and the \<^verbatim>\<open>Date\<close> stamps of a record are effects on
  collaborators that no operation reads back; they are left out.
\<close>

subsection \<open>JavaScript values\<close>

text \<open>
  A JavaScript \<^verbatim>\<open>number\<close>: a finite double, given by its exact rational value, or
  one of the special values. Not every rational is a double; the operations below never
  compute a new number, so they never leave the doubles.
\<close>

datatype js_number = Num rat | NegZero | NaN | PosInfinity | NegInfinity

text \<open>ToBoolean on a number: \<^verbatim>\<open>+0\<close>, \<^verbatim>\<open>-0\<close> and \<^verbatim>\<open>NaN\<close> are falsy.\<close>

fun truthy :: "js_number \<Rightarrow> bool" where
  "truthy (Num r) = (r \<noteq> 0)"
| "truthy NegZero = False"
| "truthy NaN = False"
| "truthy PosInfinity = True"
| "truthy NegInfinity = True"

text \<open>An optional parameter \<^verbatim>\<open>amount?: number\<close>; \<^verbatim>\<open>undefined\<close> is falsy.\<close>

fun truthy_opt :: "js_number option \<Rightarrow> bool" where
  "truthy_opt None = False"
| "truthy_opt (Some x) = truthy x"

text \<open>\<^verbatim>\<open>retryCount < this.retryAttempts\<close>, the counter being a natural number.\<close>

fun count_lt :: "nat \<Rightarrow> js_number \<Rightarrow> bool" where
  "count_lt k (Num r) = (of_nat k < r)"
| "count_lt k NegZero = False"
| "count_lt k NaN = False"
| "count_lt k PosInfinity = True"
| "count_lt k NegInfinity = False"

text \<open>\<^verbatim>\<open>s || d\<close> on an optional string: \<^verbatim>\<open>undefined\<close> and \<^verbatim>\<open>''\<close> are falsy.\<close>

fun or_default :: "string option \<Rightarrow> string \<Rightarrow> string" where
  "or_default None d = d"
| "or_default (Some s) d = (if s = [] then d else s)"

text \<open>
  The numeric runtime the processor calls and whose code is not part of the repository:
  the decimal.js constructor \<^verbatim>\<open>new Decimal(x)\<close>, its methods
  \<^verbatim>\<open>toNumber()\<close> and \<^verbatim>\<open>toString()\<close>, and
  \<^verbatim>\<open>Number.prototype.toString()\<close>. It is a parameter of every operation;
  \<open>'d\<close> is the type of Decimal objects.
\<close>

record 'd numerics =
  new_Decimal :: "js_number \<Rightarrow> 'd"
  Decimal_toNumber :: "'d \<Rightarrow> js_number"
  Decimal_toString :: "'d \<Rightarrow> string"
  Number_toString :: "js_number \<Rightarrow> string"

text \<open>
  A stand-in runtime for running the model on one concrete amount: Decimal objects are
  the numbers they were built from, and every amount prints as \<open>s\<close>. Each use below
  passes for \<open>s\<close> the decimal text of the single amount that occurs.
\<close>

definition stub_numerics :: "string \<Rightarrow> js_number numerics" where
  "stub_numerics s =
     \<lparr>new_Decimal = (\<lambda>x. x), Decimal_toNumber = (\<lambda>d. d),
      Decimal_toString = (\<lambda>d. s), Number_toString = (\<lambda>x. s)\<rparr>"

text \<open>A value that may sit in a record's \<^verbatim>\<open>amount\<close> field at run time.\<close>

datatype 'd js_value = Undefined | Number js_number | String string | DecimalObject 'd

subsection \<open>The transaction model\<close>

text \<open>
  \<^verbatim>\<open>export type TransactionType = 'payment' | 'refund' | 'capture' | 'authorization'\<close>:
  a type alias, a set of strings. \<^verbatim>\<open>TransactionStatus\<close> is an enum.
\<close>

type_synonym TransactionType = string

datatype TransactionStatus = PENDING | COMPLETED | FAILED | CANCELED

text \<open>The \<^verbatim>\<open>{message, code}\<close> object of a record and of a provider's reply.\<close>

record error_info =
  message :: "string option"
  code :: "string option"

text \<open>
  \<^verbatim>\<open>interface Transaction\<close>. The fields \<^verbatim>\<open>id\<close> and \<^verbatim>\<open>type\<close> are
  \<open>txn_id\<close> and \<open>txn_type\<close> here; an optional field is an option, and so is
  \<open>txn_type\<close>, which holds whatever the processor read for it; the two timestamps are
  left out.
\<close>

record ('d, 'md) Transaction =
  txn_id :: string
  originalTransactionId :: "string option"
  providerTransactionId :: "string option"
  amount :: "'d js_value"
  currency :: "string option"
  status :: TransactionStatus
  txn_type :: "TransactionType option"
  metadata :: "'md option"
  error :: "error_info option"

subsection \<open>Errors\<close>

text \<open>
  What a method can throw: the processor's own \<^verbatim>\<open>PaymentError(message, code)\<close>,
  the error axios rejects with (a message and possibly a code), or the TypeError of reading
  a property of \<^verbatim>\<open>undefined\<close>.
\<close>

datatype js_error =
    PaymentError string string
  | AxiosError string "string option"
  | TypeError string

fun error_message :: "js_error \<Rightarrow> string" where
  "error_message (PaymentError m c) = m"
| "error_message (AxiosError m c) = m"
| "error_message (TypeError m) = m"

fun error_code :: "js_error \<Rightarrow> string option" where
  "error_code (PaymentError m c) = Some c"
| "error_code (AxiosError m c) = c"
| "error_code (TypeError m) = None"

fun is_PaymentError :: "js_error \<Rightarrow> bool" where
  "is_PaymentError (PaymentError m c) = True"
| "is_PaymentError (AxiosError m c) = False"
| "is_PaymentError (TypeError m) = False"

definition cannot_read :: "string \<Rightarrow> js_error" where
  "cannot_read prop =
     TypeError (''Cannot read properties of undefined (reading '' @ [CHR 0x27] @ prop
                @ [CHR 0x27] @ '')'')"

subsection \<open>The imported name TransactionType\<close>

text \<open>
  The processor imports \<^verbatim>\<open>TransactionType\<close> from the model file and reads
  \<^verbatim>\<open>TransactionType.PAYMENT\<close>, \<^verbatim>\<open>.REFUND\<close> and \<^verbatim>\<open>.CAPTURE\<close>
  (lines 79, 207, 262). The model file exports that name as a type alias only, so at run
  time the binding has no value: it is \<^verbatim>\<open>undefined\<close>, and reading a property of it
  throws a TypeError.
\<close>

type_synonym js_object = "string \<rightharpoonup> string"

definition TransactionType :: "js_object option" where
  "TransactionType = None"

text \<open>\<^verbatim>\<open>x.prop\<close> for a binding \<open>x\<close> that is an object or \<^verbatim>\<open>undefined\<close>.\<close>

fun read_property :: "js_object option \<Rightarrow> string \<Rightarrow> js_error + string option" where
  "read_property None prop = Inl (cannot_read prop)"
| "read_property (Some obj) prop = Inr (obj prop)"

subsection \<open>The provider\<close>

text \<open>The JSON body of a request, one shape per endpoint.\<close>

datatype ('pm, 'md) request_body =
    PaymentBody string string 'pm string 'md
  | RefundBody string "string option"
  | CaptureBody string "string option"

text \<open>The fields of a body that the properties read.\<close>

fun idempotency_key :: "('pm, 'md) request_body \<Rightarrow> string option" where
  "idempotency_key (PaymentBody a c pm k md) = Some k"
| "idempotency_key (RefundBody t a) = None"
| "idempotency_key (CaptureBody t a) = None"

fun body_amount :: "('pm, 'md) request_body \<Rightarrow> string option" where
  "body_amount (PaymentBody a c pm k md) = Some a"
| "body_amount (RefundBody t a) = a"
| "body_amount (CaptureBody t a) = a"

text \<open>One \<^verbatim>\<open>axios.post(url, body, config)\<close>.\<close>

record ('pm, 'md) request =
  url :: string
  body :: "('pm, 'md) request_body"
  headers :: "(string \<times> string) list"
  timeout :: "nat option"

text \<open>\<^verbatim>\<open>response.data\<close>, as far as the processor reads it.\<close>

record 'd response_data =
  data_status :: "string option"
  data_id :: "string option"
  data_error :: "error_info option"
  data_amount :: "'d js_value"
  data_currency :: "string option"

text \<open>
  What a post settles to: a response, whose \<^verbatim>\<open>data\<close> may be missing, or a
  rejection (network error, timeout, status outside 2xx).
\<close>

datatype 'd axios_result = Resolved "'d response_data option" | Rejected js_error

text \<open>
  The provider gives the result of the \<open>n\<close>-th post of an operation (from 0) for the
  request posted. \<open>post\<close> performs one call and records it.
\<close>

type_synonym ('d, 'pm, 'md) provider = "nat \<Rightarrow> ('pm, 'md) request \<Rightarrow> 'd axios_result"

definition post ::
  "('d, 'pm, 'md) provider \<Rightarrow> ('pm, 'md) request list \<Rightarrow> ('pm, 'md) request
   \<Rightarrow> 'd axios_result \<times> ('pm, 'md) request list" where
  "post provider sent req = (provider (length sent) req, sent @ [req])"

subsection \<open>Module constants\<close>

type_synonym env = "string \<rightharpoonup> string"

definition MAX_RETRY_ATTEMPTS :: js_number where
  "MAX_RETRY_ATTEMPTS = Num 3"

definition PAYMENT_PROVIDER_URL :: "env \<Rightarrow> string" where
  "PAYMENT_PROVIDER_URL env =
     or_default (env ''PAYMENT_PROVIDER_URL'') ''https://api.payment-provider.com/v1''"

definition API_KEY :: "env \<Rightarrow> string" where
  "API_KEY env = or_default (env ''PAYMENT_API_KEY'') ''test_key''"

definition request_headers :: "env \<Rightarrow> (string \<times> string) list" where
  "request_headers env =
     [(''Authorization'', ''Bearer '' @ API_KEY env), (''Content-Type'', ''application/json'')]"

subsection \<open>The processor\<close>

record PaymentProcessorOptions =
  opt_retryAttempts :: "js_number option"
  opt_logLevel :: "string option"

record PaymentProcessor =
  retryAttempts :: js_number

text \<open>The constructor: \<^verbatim>\<open>options.retryAttempts || MAX_RETRY_ATTEMPTS\<close>.\<close>

definition new_PaymentProcessor :: "PaymentProcessorOptions \<Rightarrow> PaymentProcessor" where
  "new_PaymentProcessor options =
     \<lparr>retryAttempts =
        (case opt_retryAttempts options of
           None \<Rightarrow> MAX_RETRY_ATTEMPTS
         | Some n \<Rightarrow> if truthy n then n else MAX_RETRY_ATTEMPTS)\<rparr>"

definition default_options :: PaymentProcessorOptions where
  "default_options = \<lparr>opt_retryAttempts = None, opt_logLevel = None\<rparr>"

text \<open>
  What a run of \<^verbatim>\<open>processPayment\<close> leaves behind: the value returned or the
  error thrown, the final state of the record object it built (\<open>None\<close> when the
  record literal did not complete), and the requests posted.
\<close>

record ('d, 'pm, 'md) payment_run =
  outcome :: "js_error + ('d, 'md) Transaction"
  txn :: "('d, 'md) Transaction option"
  calls :: "('pm, 'md) request list"

text \<open>
  The request of \<^verbatim>\<open>processPayment\<close>. The source writes the same object literal
  twice, in the first \<^verbatim>\<open>try\<close> (lines 87-98) and in \<^verbatim>\<open>processWithRetry\<close>
  (lines 130-141); neither passes a \<^verbatim>\<open>timeout\<close>.
\<close>

definition payment_request ::
  "'d numerics \<Rightarrow> env \<Rightarrow> string \<Rightarrow> 'd \<Rightarrow> string \<Rightarrow> 'pm \<Rightarrow> 'md \<Rightarrow> ('pm, 'md) request" where
  "payment_request lib env transactionId decimalAmount cur paymentMethod md =
     \<lparr>url = PAYMENT_PROVIDER_URL env @ ''/payments'',
      body = PaymentBody (Decimal_toString lib decimalAmount) cur paymentMethod transactionId md,
      headers = request_headers env,
      timeout = None\<rparr>"

text \<open>
  The first \<^verbatim>\<open>try\<close> block (lines 85-123) after its post has settled to \<open>r\<close>:
  either the completed record is returned (\<open>Inr\<close>), or control reaches the
  \<^verbatim>\<open>catch\<close> with the caught error and the record as mutated so far (\<open>Inl\<close>). The
  PaymentError of the \<^verbatim>\<open>else\<close> branch is thrown inside the \<^verbatim>\<open>try\<close>, so it
  is caught too.
\<close>

fun first_attempt ::
  "'d axios_result \<Rightarrow> ('d, 'md) Transaction
   \<Rightarrow> (js_error \<times> ('d, 'md) Transaction) + ('d, 'md) Transaction" where
  "first_attempt (Rejected e) transaction = Inl (e, transaction)"
| "first_attempt (Resolved None) transaction = Inl (cannot_read ''status'', transaction)"
| "first_attempt (Resolved (Some d)) transaction =
     (if data_status d = Some ''succeeded''
      then Inr (transaction\<lparr>status := COMPLETED, providerTransactionId := data_id d\<rparr>)
      else
        (let failed = transaction\<lparr>status := FAILED, error := data_error d\<rparr>
         in case data_error d of
              None \<Rightarrow> Inl (cannot_read ''message'', failed)
            | Some e \<Rightarrow>
                Inl (PaymentError (or_default (message e) ''Payment processing failed'')
                                  (or_default (code e) ''unknown_error''),
                     failed)))"

text \<open>
  \<^verbatim>\<open>processWithRetry\<close> (lines 127-152), entered with the current \<open>retryCount\<close> and
  the requests \<open>sent\<close> so far. It yields the response or the error it throws. The
  recursion need not end (\<^verbatim>\<open>retryAttempts\<close> may be \<^verbatim>\<open>Infinity\<close>), so the function
  is partial: \<open>None\<close> is a run that never returns.
\<close>

partial_function (option) processWithRetry ::
  "('d, 'pm, 'md) provider \<Rightarrow> PaymentProcessor \<Rightarrow> ('pm, 'md) request \<Rightarrow> nat
   \<Rightarrow> ('pm, 'md) request list
   \<Rightarrow> ((js_error + 'd response_data option) \<times> ('pm, 'md) request list) option" where
  "processWithRetry provider this req retryCount sent =
     (case post provider sent req of
        (Resolved response, sent') \<Rightarrow> Some (Inr response, sent')
      | (Rejected e, sent') \<Rightarrow>
          if count_lt retryCount (retryAttempts this)
          then processWithRetry provider this req (retryCount + 1) sent'
          else Some (Inl e, sent'))"

declare processWithRetry.simps [code]

text \<open>
  \<^verbatim>\<open>processPayment\<close> (lines 56-170). \<open>transactionId\<close> is the value of
  \<^verbatim>\<open>uuidv4()\<close>. The record literal of lines 74-83 stands before the
  \<^verbatim>\<open>try\<close>; its \<^verbatim>\<open>type\<close> property reads \<^verbatim>\<open>TransactionType.PAYMENT\<close>,
  and what that read throws leaves the method at once, with no record built and nothing
  posted. Past the literal: in the \<^verbatim>\<open>catch\<close>, an error thrown by
  \<^verbatim>\<open>processWithRetry\<close> leaves the method as it is (line 154 is not inside a
  \<^verbatim>\<open>try\<close>); when \<^verbatim>\<open>processWithRetry\<close> returns, its response is not read, the
  record is marked failed and a PaymentError built from the caught error is thrown.
\<close>

definition processPayment ::
  "'d numerics \<Rightarrow> env \<Rightarrow> PaymentProcessor \<Rightarrow> ('d, 'pm, 'md) provider \<Rightarrow> string
   \<Rightarrow> js_number \<Rightarrow> string \<Rightarrow> 'pm \<Rightarrow> 'md \<Rightarrow> ('d, 'pm, 'md) payment_run option" where
  "processPayment lib env this provider transactionId amt cur paymentMethod md =
     (let decimalAmount = new_Decimal lib amt
      in case read_property TransactionType ''PAYMENT'' of
           Inl thrown \<Rightarrow> Some \<lparr>outcome = Inl thrown, txn = None, calls = []\<rparr>
         | Inr ty \<Rightarrow>
             (let transaction =
                    \<lparr>txn_id = transactionId,
                     originalTransactionId = None,
                     providerTransactionId = None,
                     amount = Number (Decimal_toNumber lib decimalAmount),
                     currency = Some cur,
                     status = PENDING,
                     txn_type = ty,
                     metadata = Some md,
                     error = None\<rparr>;
                  req = payment_request lib env transactionId decimalAmount cur
                          paymentMethod md;
                  (r, sent) = post provider [] req
              in case first_attempt r transaction of
                   Inr completed \<Rightarrow>
                     Some \<lparr>outcome = Inr completed, txn = Some completed, calls = sent\<rparr>
                 | Inl (err, transaction') \<Rightarrow>
                     (case processWithRetry provider this req 0 sent of
                        None \<Rightarrow> None
                      | Some (Inl e, sent') \<Rightarrow>
                          Some \<lparr>outcome = Inl e, txn = Some transaction', calls = sent'\<rparr>
                      | Some (Inr response, sent') \<Rightarrow>
                          Some \<lparr>outcome =
                                  Inl (PaymentError (error_message err)
                                         (or_default (error_code err) ''provider_error'')),
                                txn = Some (transaction'
                                  \<lparr>status := FAILED,
                                   error := Some \<lparr>message = Some (error_message err),
                                                  code = Some (or_default (error_code err)
                                                                 ''provider_error'')\<rparr>\<rparr>),
                                calls = sent'\<rparr>)))"

text \<open>
  \<^verbatim>\<open>processRefund\<close> (lines 177-229) and \<^verbatim>\<open>capturePayment\<close> (lines 236-280);
  \<open>newId\<close> is the value of \<^verbatim>\<open>uuidv4()\<close>. The whole body is inside the
  \<^verbatim>\<open>try\<close>, so whatever is thrown is rethrown as a PaymentError.
\<close>

text \<open>
  The test of line 185, \<^verbatim>\<open>amount && amount > 50000\<close>. When it holds,
  \<^verbatim>\<open>processRefund\<close> writes a warning to the log, and the source notes that
  additional verification should happen there; it goes on to post all the same.
\<close>

fun gt_50000 :: "js_number \<Rightarrow> bool" where
  "gt_50000 (Num r) = (50000 < r)"
| "gt_50000 NegZero = False"
| "gt_50000 NaN = False"
| "gt_50000 PosInfinity = True"
| "gt_50000 NegInfinity = False"

fun large_refund :: "js_number option \<Rightarrow> bool" where
  "large_refund None = False"
| "large_refund (Some a) = (truthy a \<and> gt_50000 a)"

definition refund_request ::
  "'d numerics \<Rightarrow> env \<Rightarrow> string \<Rightarrow> js_number option \<Rightarrow> ('pm, 'md) request" where
  "refund_request lib env transactionId amt =
     \<lparr>url = PAYMENT_PROVIDER_URL env @ ''/refunds'',
      body = RefundBody transactionId
               (if truthy_opt amt then Some (Number_toString lib (the amt)) else None),
      headers = request_headers env,
      timeout = Some 30000\<rparr>"

text \<open>
  The record literal of lines 201-211, its properties evaluated in order. With
  \<^verbatim>\<open>response.data\<close> missing it fails at the first property it reads from there:
  \<^verbatim>\<open>amount\<close> when the argument is falsy, \<^verbatim>\<open>currency\<close> otherwise. With the
  data present it reaches \<^verbatim>\<open>type: TransactionType.REFUND\<close>.
\<close>

definition refund_record ::
  "'d response_data option \<Rightarrow> string \<Rightarrow> string \<Rightarrow> js_number option
   \<Rightarrow> js_error + ('d, 'md) Transaction" where
  "refund_record data newId transactionId amt =
     (case data of
        None \<Rightarrow> Inl (cannot_read (if truthy_opt amt then ''currency'' else ''amount''))
      | Some d \<Rightarrow>
          (case read_property TransactionType ''REFUND'' of
             Inl thrown \<Rightarrow> Inl thrown
           | Inr ty \<Rightarrow>
               Inr \<lparr>txn_id = newId,
                    originalTransactionId = Some transactionId,
                    providerTransactionId = data_id d,
                    amount = (if truthy_opt amt then Number (the amt) else data_amount d),
                    currency = data_currency d,
                    status = COMPLETED,
                    txn_type = ty,
                    metadata = None,
                    error = None\<rparr>))"

definition processRefund ::
  "'d numerics \<Rightarrow> env \<Rightarrow> ('d, 'pm, 'md) provider \<Rightarrow> string \<Rightarrow> string \<Rightarrow> js_number option
   \<Rightarrow> (js_error + ('d, 'md) Transaction) \<times> ('pm, 'md) request list" where
  "processRefund lib env provider newId transactionId amt =
     (let (r, sent) = post provider [] (refund_request lib env transactionId amt);
          tried = (case r of
                     Rejected e \<Rightarrow> Inl e
                   | Resolved data \<Rightarrow> refund_record data newId transactionId amt)
      in case tried of
           Inl e \<Rightarrow>
             (Inl (PaymentError (''Failed to process refund: '' @ error_message e)
                     (or_default (error_code e) ''refund_error'')), sent)
         | Inr refundTransaction \<Rightarrow> (Inr refundTransaction, sent))"

definition capture_request ::
  "'d numerics \<Rightarrow> env \<Rightarrow> string \<Rightarrow> js_number option \<Rightarrow> ('pm, 'md) request" where
  "capture_request lib env authorizationId amt =
     \<lparr>url = PAYMENT_PROVIDER_URL env @ ''/captures'',
      body = CaptureBody authorizationId
               (if truthy_opt amt then Some (Number_toString lib (the amt)) else None),
      headers = request_headers env,
      timeout = Some 30000\<rparr>"

text \<open>The record literal of lines 256-266, in the same way.\<close>

definition capture_record ::
  "'d response_data option \<Rightarrow> string \<Rightarrow> string \<Rightarrow> js_number option
   \<Rightarrow> js_error + ('d, 'md) Transaction" where
  "capture_record data newId authorizationId amt =
     (case data of
        None \<Rightarrow> Inl (cannot_read (if truthy_opt amt then ''currency'' else ''amount''))
      | Some d \<Rightarrow>
          (case read_property TransactionType ''CAPTURE'' of
             Inl thrown \<Rightarrow> Inl thrown
           | Inr ty \<Rightarrow>
               Inr \<lparr>txn_id = newId,
                    originalTransactionId = Some authorizationId,
                    providerTransactionId = data_id d,
                    amount = (if truthy_opt amt then Number (the amt) else data_amount d),
                    currency = data_currency d,
                    status = COMPLETED,
                    txn_type = ty,
                    metadata = None,
                    error = None\<rparr>))"

definition capturePayment ::
  "'d numerics \<Rightarrow> env \<Rightarrow> ('d, 'pm, 'md) provider \<Rightarrow> string \<Rightarrow> string \<Rightarrow> js_number option
   \<Rightarrow> (js_error + ('d, 'md) Transaction) \<times> ('pm, 'md) request list" where
  "capturePayment lib env provider newId authorizationId amt =
     (let (r, sent) = post provider [] (capture_request lib env authorizationId amt);
          tried = (case r of
                     Rejected e \<Rightarrow> Inl e
                   | Resolved data \<Rightarrow> capture_record data newId authorizationId amt)
      in case tried of
           Inl e \<Rightarrow>
             (Inl (PaymentError (''Failed to capture payment: '' @ error_message e)
                     (or_default (error_code e) ''capture_error'')), sent)
         | Inr captureTransaction \<Rightarrow> (Inr captureTransaction, sent))"

subsection \<open>Scenarios\<close>

text \<open>
  Provider behaviours and inputs on which the operations are run below. The processor is
  the one the tests build, \<^verbatim>\<open>new PaymentProcessor()\<close>; the payment method and the
  metadata are opaque to the processor and are a string and the unit value here.
\<close>

definition default_processor :: PaymentProcessor where
  "default_processor = new_PaymentProcessor default_options"

definition network_error :: js_error where
  "network_error = AxiosError ''Network error'' None"

text \<open>\<^verbatim>\<open>{status: 'succeeded', id: i, amount: a, currency: 'USD'}\<close>\<close>

definition accepted :: "string \<Rightarrow> string \<Rightarrow> js_number response_data" where
  "accepted i a =
     \<lparr>data_status = Some ''succeeded'', data_id = Some i, data_error = None,
      data_amount = String a, data_currency = Some ''USD''\<rparr>"

text \<open>\<^verbatim>\<open>{status: 'failed', error: {message: 'Card declined', code: 'card_declined'}}\<close>\<close>

definition declined :: "js_number response_data" where
  "declined =
     \<lparr>data_status = Some ''failed'', data_id = None,
      data_error = Some \<lparr>message = Some ''Card declined'', code = Some ''card_declined''\<rparr>,
      data_amount = Undefined, data_currency = None\<rparr>"

definition accepting :: "string \<Rightarrow> string \<Rightarrow> (js_number, string, unit) provider" where
  "accepting i a n req = Resolved (Some (accepted i a))"

definition declining :: "(js_number, string, unit) provider" where
  "declining n req = Resolved (Some declined)"

definition always_down :: "(js_number, string, unit) provider" where
  "always_down n req = Rejected network_error"

text \<open>The first two posts fail on the network, every later one is accepted.\<close>

definition down_twice :: "(js_number, string, unit) provider" where
  "down_twice n req =
     (if n < 2 then Rejected network_error else Resolved (Some (accepted ''prov_1'' ''1000'')))"

text \<open>The double that the literal \<^verbatim>\<open>19.99\<close> denotes.\<close>

definition double_19_99 :: js_number where
  "double_19_99 = Num (5626684784446013 / 281474976710656)"

section \<open>Properties\<close>

subsection \<open>One step of the retry loop\<close>

lemma processWithRetry_resolved:
  "provider (length sent) req = Resolved r \<Longrightarrow>
   processWithRetry provider this req k sent = Some (Inr r, sent @ [req])"
  by (subst processWithRetry.simps) (simp add: post_def)

lemma processWithRetry_retry:
  "provider (length sent) req = Rejected e \<Longrightarrow> count_lt k (retryAttempts this) \<Longrightarrow>
   processWithRetry provider this req k sent =
   processWithRetry provider this req (Suc k) (sent @ [req])"
  by (subst processWithRetry.simps) (simp add: post_def)

lemma processWithRetry_give_up:
  "provider (length sent) req = Rejected e \<Longrightarrow> \<not> count_lt k (retryAttempts this) \<Longrightarrow>
   processWithRetry provider this req k sent = Some (Inl e, sent @ [req])"
  by (subst processWithRetry.simps) (simp add: post_def)

lemma retryAttempts_default: "retryAttempts default_processor = Num 3"
  by (simp add: default_processor_def new_PaymentProcessor_def default_options_def
      MAX_RETRY_ATTEMPTS_def)

subsection \<open>When the retry loop returns\<close>

text \<open>
  With a finite \<^verbatim>\<open>retryAttempts\<close> the loop returns, whatever the provider does.
  With \<^verbatim>\<open>Infinity\<close> and a provider that rejects every post it never does.
\<close>

lemma processWithRetry_returns_below:
  "retryAttempts this = Num b \<Longrightarrow> nat \<lceil>b\<rceil> - k = m \<Longrightarrow>
   \<exists>res. processWithRetry provider this req k sent = Some res"
proof (induction m arbitrary: k sent)
  case 0
  then have "\<not> count_lt k (retryAttempts this)"
    by simp linarith
  then show ?case
    by (cases "provider (length sent) req")
      (simp_all add: processWithRetry_resolved processWithRetry_give_up)
next
  case (Suc m)
  show ?case
  proof (cases "provider (length sent) req")
    case (Resolved r)
    then show ?thesis
      by (simp add: processWithRetry_resolved)
  next
    case (Rejected e)
    show ?thesis
    proof (cases "count_lt k (retryAttempts this)")
      case True
      from Suc.prems have "nat \<lceil>b\<rceil> - Suc k = m"
        by simp
      with Suc.IH [OF Suc.prems(1)] obtain res where
        "processWithRetry provider this req (Suc k) (sent @ [req]) = Some res"
        by blast
      with Rejected True show ?thesis
        by (simp add: processWithRetry_retry)
    next
      case False
      with Rejected show ?thesis
        by (simp add: processWithRetry_give_up)
    qed
  qed
qed

lemma processWithRetry_returns:
  "retryAttempts this \<noteq> PosInfinity \<Longrightarrow>
   \<exists>res. processWithRetry provider this req k sent = Some res"
proof (cases "retryAttempts this")
  case (Num b)
  then show ?thesis
    using processWithRetry_returns_below by blast
next
  case PosInfinity
  assume "retryAttempts this \<noteq> PosInfinity"
  with PosInfinity show ?thesis
    by simp
qed (cases "provider (length sent) req";
     simp add: processWithRetry_resolved processWithRetry_give_up)+

lemma processWithRetry_never_returns_Some:
  assumes "processWithRetry provider this req k sent = Some res"
  shows "\<not> (retryAttempts this = PosInfinity \<and> (\<forall>n. \<exists>e. provider n req = Rejected e))"
proof (rule processWithRetry.raw_induct
    [where P = "\<lambda>provider this req k sent res.
       \<not> (retryAttempts this = PosInfinity \<and> (\<forall>n. \<exists>e. provider n req = Rejected e))",
     OF _ assms])
  fix loop provider this req retryCount sent res
  assume IH: "\<And>provider this req retryCount sent res.
      loop provider this req retryCount sent = Some res \<Longrightarrow>
      \<not> (retryAttempts this = PosInfinity \<and> (\<forall>n. \<exists>e. provider n req = Rejected e))"
    and unfolded: "(case post provider sent req of
        (Resolved response, sent') \<Rightarrow> Some (Inr response, sent')
      | (Rejected e, sent') \<Rightarrow>
          if count_lt retryCount (retryAttempts this)
          then loop provider this req (retryCount + 1) sent'
          else Some (Inl e, sent')) = Some res"
  show "\<not> (retryAttempts this = PosInfinity \<and> (\<forall>n. \<exists>e. provider n req = Rejected e))"
  proof
    assume down: "retryAttempts this = PosInfinity \<and> (\<forall>n. \<exists>e. provider n req = Rejected e)"
    then obtain e where "provider (length sent) req = Rejected e"
      by blast
    with down unfolded have "loop provider this req (retryCount + 1) (sent @ [req]) = Some res"
      by (simp add: post_def)
    with down IH show False
      by blast
  qed
qed

lemma processWithRetry_unbounded:
  "retryAttempts this = PosInfinity \<Longrightarrow> (\<And>n. \<exists>e. provider n req = Rejected e) \<Longrightarrow>
   processWithRetry provider this req k sent = None"
  using processWithRetry_never_returns_Some [of provider this req k sent]
  by (cases "processWithRetry provider this req k sent") auto

subsection \<open>Payments\<close>

text \<open>
  Every run of \<^verbatim>\<open>processPayment\<close> ends at line 79: the TypeError of reading
  \<^verbatim>\<open>PAYMENT\<close> from \<^verbatim>\<open>undefined\<close> is thrown before the \<^verbatim>\<open>try\<close> of line
  85, so no record exists and nothing has been posted.
\<close>

lemma processPayment_throws:
  "processPayment lib env this provider transactionId amt cur pm md
   = Some \<lparr>outcome = Inl (cannot_read ''PAYMENT''), txn = None, calls = []\<rparr>"
  by (simp add: processPayment_def TransactionType_def)

text \<open>
  Claim C9. The run of the test \<^verbatim>\<open>should process a payment successfully\<close>: 1000 in
  USD, the provider set to answer the first post with status \<^verbatim>\<open>succeeded\<close> and an
  id. The claim, and the test, expect a completed record with the provider's id and one
  post. The code throws the TypeError, returns no record and posts nothing.
\<close>

theorem accepting_provider_no_record:
  "accepting ''test_transaction_123'' ''1000'' 0
     (payment_request (stub_numerics ''1000'') Map.empty ''txn-1'' (Num 1000) ''USD'' ''card'' ())
   = Resolved (Some (accepted ''test_transaction_123'' ''1000''))
   \<and> data_status (accepted ''test_transaction_123'' ''1000'') = Some ''succeeded''
   \<and> data_id (accepted ''test_transaction_123'' ''1000'') = Some ''test_transaction_123''
   \<and> processPayment (stub_numerics ''1000'') Map.empty default_processor
        (accepting ''test_transaction_123'' ''1000'') ''txn-1'' (Num 1000) ''USD'' ''card'' ()
      = Some \<lparr>outcome = Inl (cannot_read ''PAYMENT''), txn = None, calls = []\<rparr>"
  by (simp add: processPayment_throws accepting_def accepted_def)

text \<open>
  Claim C1. The specification's scenario: the provider is set to fail the first two posts
  on the network and to accept the third, under the default processor. The claim expects
  a completed record with the provider's id after three submissions. The code throws the
  TypeError before its first post: the provider receives no submission and no record is
  returned.
\<close>

theorem retry_then_accept_never_posted:
  "map (\<lambda>n. down_twice n
          (payment_request (stub_numerics ''1000'') Map.empty ''txn-1'' (Num 1000) ''USD''
             ''card'' ()))
     [0, 1, 2]
   = [Rejected network_error, Rejected network_error,
      Resolved (Some (accepted ''prov_1'' ''1000''))]
   \<and> map_option (\<lambda>r. (outcome r, txn r, length (calls r)))
       (processPayment (stub_numerics ''1000'') Map.empty default_processor down_twice
          ''txn-1'' (Num 1000) ''USD'' ''card'' ())
     = Some (Inl (cannot_read ''PAYMENT''), None, 0)"
  by (simp add: processPayment_throws down_twice_def)

text \<open>
  Claim C2. The run of the test \<^verbatim>\<open>should handle payment failure\<close>: the provider is
  set to decline. The claim expects exactly one submission. The code throws the TypeError
  before its first post: the provider receives none.
\<close>

theorem declining_provider_never_posted:
  "declining 0
     (payment_request (stub_numerics ''1000'') Map.empty ''txn-1'' (Num 1000) ''USD'' ''card'' ())
   = Resolved (Some declined)
   \<and> map_option (\<lambda>r. length (calls r))
       (processPayment (stub_numerics ''1000'') Map.empty default_processor declining
          ''txn-1'' (Num 1000) ''USD'' ''card'' ())
     = Some 0"
  by (simp add: processPayment_throws declining_def)

text \<open>
  Claim C3. Every post would fail on the network, under the default processor
  (\<^verbatim>\<open>MAX_RETRY_ATTEMPTS = 3\<close>). The claim expects a record in failed status after
  exactly three submissions. The code ends with no submission made and no record, failed
  or otherwise.
\<close>

theorem all_transient_no_calls_no_record:
  "map_option (\<lambda>r. (map_option status (txn r), length (calls r)))
     (processPayment (stub_numerics ''1000'') Map.empty default_processor always_down
        ''txn-1'' (Num 1000) ''USD'' ''card'' ())
   = Some (None, 0)"
  by (simp add: processPayment_throws)

text \<open>
  Claim C8. The run of the test \<^verbatim>\<open>should handle network errors\<close>. The claim, and the
  test, expect a typed error. What leaves \<^verbatim>\<open>processPayment\<close> is the TypeError of
  line 79, which is thrown outside the \<^verbatim>\<open>try\<close> and is not a PaymentError.
\<close>

theorem untyped_error_leaves_processPayment:
  "map_option outcome
     (processPayment (stub_numerics ''1000'') Map.empty default_processor always_down
        ''txn-1'' (Num 1000) ''USD'' ''card'' ())
   = Some (Inl (cannot_read ''PAYMENT''))
   \<and> \<not> is_PaymentError (cannot_read ''PAYMENT'')"
  by (simp add: processPayment_throws cannot_read_def)

text \<open>
  Claim C7. The claim expects the amount stored on the created record and the amount
  serialized to the provider to be exact decimals. For the input \<^verbatim>\<open>19.99\<close>, which
  reaches \<^verbatim>\<open>processPayment\<close> as a double, no record is created and no amount is
  serialized.
\<close>

theorem amount_neither_stored_nor_serialized:
  "map_option (\<lambda>r. (map_option amount (txn r), map (\<lambda>q. body_amount (body q)) (calls r)))
     (processPayment (stub_numerics ''19.99'') Map.empty default_processor
        (accepting ''prov_1'' ''19.99'') ''txn-1'' double_19_99 ''USD'' ''card'' ())
   = Some (None, [])"
  by (simp add: processPayment_throws)

subsection \<open>Timeouts\<close>


subsection \<open>Refunds and captures\<close>

text \<open>
  Claim C4, as the specification states it: a refund above the refundable remainder is
  rejected with a ValidationError before any provider call. The specification's scenario
  is a refund of 30 against \<^verbatim>\<open>txn_1\<close>, whose amount was 20.
  \<^verbatim>\<open>processRefund\<close> receives the transaction id and the amount only; run on this
  input with a provider that accepts, it posts the request for 30, and what it throws
  afterwards is a PaymentError with code \<^verbatim>\<open>refund_error\<close>.
\<close>

theorem refund_over_remainder_is_posted:
  "processRefund (stub_numerics ''30'') Map.empty (accepting ''re_1'' ''30'') ''rf-1''
     ''txn_1'' (Some (Num 30))
   = (Inl (PaymentError (''Failed to process refund: '' @ error_message (cannot_read ''REFUND''))
             ''refund_error''),
      [\<lparr>url = ''https://api.payment-provider.com/v1/refunds'',
        body = RefundBody ''txn_1'' (Some ''30''),
        headers = [(''Authorization'', ''Bearer test_key''),
                   (''Content-Type'', ''application/json'')],
        timeout = Some 30000\<rparr>])"
  by (simp add: processRefund_def refund_record_def TransactionType_def Let_def post_def
      accepting_def accepted_def refund_request_def stub_numerics_def PAYMENT_PROVIDER_URL_def
      request_headers_def API_KEY_def cannot_read_def)

text \<open>
  Claim C4, amended. \<^verbatim>\<open>processRefund\<close> compares the amount with no remainder and
  rejects nothing before the provider call: for every transaction id and every amount
  that does not meet the large-refund test of line 185, it posts exactly one request, the
  refund request for that id and amount, and an error it throws is a PaymentError.
  Nothing is said of the amounts above 50000.
\<close>

theorem refund_posted_once:
  assumes "\<not> large_refund amt"
  shows "snd (processRefund lib env provider newId transactionId amt)
           = [refund_request lib env transactionId amt]
         \<and> (case fst (processRefund lib env provider newId transactionId amt) of
              Inl e \<Rightarrow> is_PaymentError e
            | Inr t \<Rightarrow> True)"
  by (simp add: processRefund_def Let_def post_def split: sum.splits)

theorem refund_posted_once_witness:
  "\<not> large_refund (Some (Num 30))
   \<and> snd (processRefund (stub_numerics ''30'') Map.empty (accepting ''re_1'' ''30'') ''rf-1''
            ''txn_1'' (Some (Num 30)))
     = [refund_request (stub_numerics ''30'') Map.empty ''txn_1'' (Some (Num 30))]
   \<and> (case fst (processRefund (stub_numerics ''30'') Map.empty (accepting ''re_1'' ''30'')
                  ''rf-1'' ''txn_1'' (Some (Num 30))) of
        Inl e \<Rightarrow> is_PaymentError e
      | Inr t \<Rightarrow> True)"
proof -
  have small: "\<not> large_refund (Some (Num 30))"
    by simp
  from refund_posted_once [OF small] small show ?thesis
    by blast
qed

text \<open>
  Claim C5. The claim expects an idempotency key in the body of every request. The
  refund of the test suite and a capture post bodies that hold the id of the original
  transaction or authorization and the amount, and no idempotency key; the id of the
  new record is drawn only after the provider has answered.
\<close>

theorem refund_and_capture_without_idempotency_key:
  "map (\<lambda>q. (body q, idempotency_key (body q)))
     (snd (processRefund (stub_numerics ''500'') Map.empty (accepting ''test_refund_123'' ''500'')
             ''rf-1'' ''test_transaction_123'' (Some (Num 500))))
   = [(RefundBody ''test_transaction_123'' (Some ''500''), None)]
   \<and> map (\<lambda>q. (body q, idempotency_key (body q)))
     (snd (capturePayment (stub_numerics ''500'') Map.empty (accepting ''cap_1'' ''500'')
             ''cp-1'' ''auth_1'' (Some (Num 500))))
   = [(CaptureBody ''auth_1'' (Some ''500''), None)]"
  by (simp add: processRefund_def capturePayment_def Let_def post_def accepting_def
      refund_request_def capture_request_def stub_numerics_def split: sum.splits)

text \<open>
  For \<^verbatim>\<open>processRefund\<close> and \<^verbatim>\<open>capturePayment\<close>, the amount 0 gives the same
  outcome and the same posted request as no amount, and that request has no amount field.
\<close>

lemma zero_amount_request:
  "refund_request lib env transactionId (Some (Num 0)) = refund_request lib env transactionId None"
  "capture_request lib env authorizationId (Some (Num 0))
   = capture_request lib env authorizationId None"
  by (simp_all add: refund_request_def capture_request_def)

lemma zero_amount_record:
  "refund_record data newId transactionId (Some (Num 0))
   = refund_record data newId transactionId None"
  "capture_record data newId authorizationId (Some (Num 0))
   = capture_record data newId authorizationId None"
  by (simp_all add: refund_record_def capture_record_def split: option.splits sum.splits)

lemma zero_amount_as_omitted:
  "processRefund lib env provider newId transactionId (Some (Num 0))
     = processRefund lib env provider newId transactionId None
   \<and> capturePayment lib env provider newId authorizationId (Some (Num 0))
     = capturePayment lib env provider newId authorizationId None
   \<and> map (\<lambda>q. body_amount (body q))
         (snd (processRefund lib env provider newId transactionId (Some (Num 0)))) = [None]
   \<and> map (\<lambda>q. body_amount (body q))
         (snd (capturePayment lib env provider newId authorizationId (Some (Num 0)))) = [None]"
proof -
  have "processRefund lib env provider newId transactionId (Some (Num 0))
        = processRefund lib env provider newId transactionId None"
    by (simp add: processRefund_def Let_def post_def zero_amount_request zero_amount_record
        split: axios_result.splits)
  moreover have "capturePayment lib env provider newId authorizationId (Some (Num 0))
        = capturePayment lib env provider newId authorizationId None"
    by (simp add: capturePayment_def Let_def post_def zero_amount_request zero_amount_record
        split: axios_result.splits)
  moreover have "map (\<lambda>q. body_amount (body q))
         (snd (processRefund lib env provider newId transactionId (Some (Num 0)))) = [None]"
    by (simp add: processRefund_def Let_def post_def refund_request_def split: sum.splits)
  moreover have "map (\<lambda>q. body_amount (body q))
         (snd (capturePayment lib env provider newId authorizationId (Some (Num 0)))) = [None]"
    by (simp add: capturePayment_def Let_def post_def capture_request_def split: sum.splits)
  ultimately show ?thesis
    by simp
qed

text \<open>
  Claim C10. A refund and a capture of 0, the provider answering with the full amount,
  1000. The claim expects a request without an amount field and a returned record whose
  amount is the provider's. The request is posted without an amount field; then the
  record literal throws at \<^verbatim>\<open>TransactionType.REFUND\<close> and
  \<^verbatim>\<open>TransactionType.CAPTURE\<close>, and neither method returns a record: each throws a
  PaymentError.
\<close>

theorem zero_amount_returns_no_record:
  "processRefund (stub_numerics ''0'') Map.empty (accepting ''prov_2'' ''1000'') ''new-1''
     ''txn_1'' (Some (Num 0))
   = (Inl (PaymentError (''Failed to process refund: '' @ error_message (cannot_read ''REFUND''))
             ''refund_error''),
      [\<lparr>url = ''https://api.payment-provider.com/v1/refunds'',
        body = RefundBody ''txn_1'' None,
        headers = [(''Authorization'', ''Bearer test_key''),
                   (''Content-Type'', ''application/json'')],
        timeout = Some 30000\<rparr>])
   \<and> capturePayment (stub_numerics ''0'') Map.empty (accepting ''prov_2'' ''1000'') ''new-1''
       ''auth_1'' (Some (Num 0))
     = (Inl (PaymentError
               (''Failed to capture payment: '' @ error_message (cannot_read ''CAPTURE''))
               ''capture_error''),
        [\<lparr>url = ''https://api.payment-provider.com/v1/captures'',
          body = CaptureBody ''auth_1'' None,
          headers = [(''Authorization'', ''Bearer test_key''),
                     (''Content-Type'', ''application/json'')],
          timeout = Some 30000\<rparr>])"
  by (simp add: processRefund_def capturePayment_def refund_record_def capture_record_def
      TransactionType_def Let_def post_def accepting_def accepted_def refund_request_def
      capture_request_def PAYMENT_PROVIDER_URL_def request_headers_def API_KEY_def
      cannot_read_def)

end
